theory Spec2Isabelle
  imports Main
begin

section \<open>Data model (internal/models)\<close>

text \<open>
  A \<open>uuid.UUID\<close> is an opaque identifier. A \<open>time.Time\<close> is a point on the time line
  with the resolution of a nanosecond: the number of nanoseconds since the epoch. A
  \<open>time.Duration\<close> is a number of nanoseconds too. A string is the list of its characters.
  The two generators the code calls, \<open>uuid.New()\<close> and \<open>time.Now()\<close> (and SQL's
  \<open>NOW()\<close>), are not functions of the program state, so every operation that calls one
  takes its result as an argument.
\<close>

type_synonym uuid = nat
type_synonym time = int

record Device =
  Device_ID :: uuid
  CertificateSerialNumber :: string
  CertificateIssuerCN :: string
  CreatedAt :: time

definition NewDevice :: "uuid \<Rightarrow> time \<Rightarrow> string \<Rightarrow> string \<Rightarrow> Device" where
  "NewDevice new_uuid now serialNumber issuerCN =
     \<lparr>Device_ID = new_uuid,
      CertificateSerialNumber = serialNumber,
      CertificateIssuerCN = issuerCN,
      CreatedAt = now\<rparr>"

record Assignment =
  Assignment_ID :: uuid
  DeviceID :: uuid
  UserID :: string
  AssignedAt :: time
  UnassignedAt :: "time option"

definition NewAssignment :: "uuid \<Rightarrow> time \<Rightarrow> uuid \<Rightarrow> string \<Rightarrow> Assignment" where
  "NewAssignment new_uuid now deviceID userID =
     \<lparr>Assignment_ID = new_uuid,
      DeviceID = deviceID,
      UserID = userID,
      AssignedAt = now,
      UnassignedAt = None\<rparr>"

definition IsActive :: "Assignment \<Rightarrow> bool" where
  "IsActive a = (UnassignedAt a = None)"

definition Unassign :: "time \<Rightarrow> Assignment \<Rightarrow> Assignment" where
  "Unassign now a = a\<lparr>UnassignedAt := Some now\<rparr>"

section \<open>Errors\<close>

text \<open>
  Go errors are values carrying a message. Each \<open>fmt.Errorf\<close> of the modelled code is a
  constructor; \<open>%w\<close> wrapping keeps the wrapped error as an argument. \<open>Error\<close> renders the
  message, which is what the HTTP handlers compare. The errors of the database driver that
  the model can produce are the violations of a key and the refusals of a value by the
  type of its column; \<open>pq_Error\<close> is the driver's message without the names of table and
  constraint.
\<close>

datatype pq_error =
    unique_violation
  | foreign_key_violation
  | string_data_right_truncation

datatype error =
    Repo_device_not_found
  | Repo_failed_to_create_device pq_error
  | Repo_failed_to_create_assignment pq_error
  | Repo_no_active_assignment_found_for_device
  | Repo_no_active_assignment_found_to_unassign
  | Svc_invalid_certificate_information
  | Svc_failed_to_register_device error
  | Svc_device_not_found
  | Svc_device_is_already_assigned
  | Svc_failed_to_assign_device error
  | Svc_failed_to_unassign_device error



section \<open>The store (internal/database)\<close>

text \<open>
  The PostgreSQL database is two tables, each a list of rows in insertion order. The
  migrations declare, and the model enforces on insert:
  \<^item> \<open>devices.id\<close> PRIMARY KEY, \<open>devices.certificate_serial_number\<close> UNIQUE;
  \<^item> \<open>assignments.id\<close> PRIMARY KEY, \<open>assignments.device_id\<close> REFERENCES \<open>devices(id)\<close>.

  \<open>createIndexes\<close> declares \<open>idx_assignments_active\<close> on \<open>assignments(device_id) WHERE
  unassigned_at IS NULL\<close> as a plain index, not a UNIQUE one, so it rejects no row and
  has no counterpart in the model. Every repository method runs one SQL statement, which
  the database executes atomically. Failures of the connection and the encoding of
  strings on the way to the database are outside the model; log calls have no effect on
  the state and are left out.

  A row holds what the types of its columns make of the values of an INSERT, and a query
  returns what the row holds:
  \<^item> a \<open>VARCHAR(255)\<close> column (serial number, issuer common name, user id) refuses a
    string of more than 255 characters, unless all characters after the first 255 are
    spaces, in which case it stores the first 255;
  \<^item> a \<open>TIMESTAMP WITH TIME ZONE\<close> column (\<open>created_at\<close>, \<open>assigned_at\<close>, \<open>unassigned_at\<close>)
    has the resolution of a microsecond and rounds the nanoseconds of a \<open>time.Time\<close> to
    the nearest one. (For a time exactly half-way between two microseconds PostgreSQL
    rounds in floating point; the model rounds it up.) The value of SQL's \<open>NOW()\<close> is
    such a timestamp already.
  The type of a column acts before the constraints of the table are checked. In a WHERE
  clause a column is compared with the parameter as the code passes it.
\<close>

record DB =
  devices :: "Device list"
  assignments :: "Assignment list"

definition varchar :: "nat \<Rightarrow> string \<Rightarrow> pq_error + string" where
  "varchar n s =
     (if length s \<le> n then Inr s
      else if list_all (\<lambda>c. c = CHR '' '') (drop n s) then Inr (take n s)
      else Inl string_data_right_truncation)"

definition timestamptz :: "time \<Rightarrow> time" where
  "timestamptz t = (t + 500) div 1000 * 1000"

definition CreateDevice :: "DB \<Rightarrow> Device \<Rightarrow> error + DB" where
  "CreateDevice db device =
     (case varchar 255 (CertificateSerialNumber device) of
        Inl e \<Rightarrow> Inl (Repo_failed_to_create_device e)
      | Inr serial \<Rightarrow>
          (case varchar 255 (CertificateIssuerCN device) of
             Inl e \<Rightarrow> Inl (Repo_failed_to_create_device e)
           | Inr issuerCN \<Rightarrow>
               if list_ex (\<lambda>d. Device_ID d = Device_ID device) (devices db)
                  \<or> list_ex (\<lambda>d. CertificateSerialNumber d = serial) (devices db)
               then Inl (Repo_failed_to_create_device unique_violation)
               else Inr (db\<lparr>devices := devices db @
                      [\<lparr>Device_ID = Device_ID device,
                        CertificateSerialNumber = serial,
                        CertificateIssuerCN = issuerCN,
                        CreatedAt = timestamptz (CreatedAt device)\<rparr>]\<rparr>)))"

definition GetDeviceByID :: "DB \<Rightarrow> uuid \<Rightarrow> error + Device" where
  "GetDeviceByID db i =
     (case find (\<lambda>d. Device_ID d = i) (devices db) of
        None \<Rightarrow> Inl Repo_device_not_found
      | Some d \<Rightarrow> Inr d)"

definition GetDeviceBySerialNumber :: "DB \<Rightarrow> string \<Rightarrow> error + Device" where
  "GetDeviceBySerialNumber db serialNumber =
     (case find (\<lambda>d. CertificateSerialNumber d = serialNumber) (devices db) of
        None \<Rightarrow> Inl Repo_device_not_found
      | Some d \<Rightarrow> Inr d)"

definition CreateAssignment :: "DB \<Rightarrow> Assignment \<Rightarrow> error + DB" where
  "CreateAssignment db assignment =
     (case varchar 255 (UserID assignment) of
        Inl e \<Rightarrow> Inl (Repo_failed_to_create_assignment e)
      | Inr userID \<Rightarrow>
          if list_ex (\<lambda>a. Assignment_ID a = Assignment_ID assignment) (assignments db)
          then Inl (Repo_failed_to_create_assignment unique_violation)
          else if list_ex (\<lambda>d. Device_ID d = DeviceID assignment) (devices db)
          then Inr (db\<lparr>assignments := assignments db @
                 [\<lparr>Assignment_ID = Assignment_ID assignment,
                   DeviceID = DeviceID assignment,
                   UserID = userID,
                   AssignedAt = timestamptz (AssignedAt assignment),
                   UnassignedAt = map_option timestamptz (UnassignedAt assignment)\<rparr>]\<rparr>)
          else Inl (Repo_failed_to_create_assignment foreign_key_violation))"

text \<open>The rows that \<open>WHERE device_id = $1 AND unassigned_at IS NULL\<close> selects.\<close>

definition active_rows :: "DB \<Rightarrow> uuid \<Rightarrow> Assignment list" where
  "active_rows db deviceID =
     filter (\<lambda>a. DeviceID a = deviceID \<and> UnassignedAt a = None) (assignments db)"

text \<open>
  \<open>ORDER BY assigned_at DESC LIMIT 1\<close>: a row with the greatest \<open>assigned_at\<close>; among
  equal timestamps SQL leaves the choice open, the model takes the earliest inserted.
\<close>

fun latest :: "Assignment \<Rightarrow> Assignment list \<Rightarrow> Assignment" where
  "latest a [] = a"
| "latest a (b # bs) = latest (if AssignedAt a < AssignedAt b then b else a) bs"


text \<open>
  \<open>UPDATE assignments SET unassigned_at = NOW() WHERE device_id = $1 AND unassigned_at
  IS NULL\<close>: the new table and the number of rows affected.
\<close>

definition exec_unassign :: "DB \<Rightarrow> uuid \<Rightarrow> time \<Rightarrow> DB \<times> nat" where
  "exec_unassign db deviceID now =
     (db\<lparr>assignments :=
          map (\<lambda>a. if DeviceID a = deviceID \<and> UnassignedAt a = None
                    then a\<lparr>UnassignedAt := Some now\<rparr> else a) (assignments db)\<rparr>,
      length (active_rows db deviceID))"

definition AssignmentRepository_UnassignDevice :: "DB \<Rightarrow> uuid \<Rightarrow> time \<Rightarrow> (error + unit) \<times> DB" where
  "AssignmentRepository_UnassignDevice db deviceID now =
     (case exec_unassign db deviceID now of
        (db', rowsAffected) \<Rightarrow>
          if rowsAffected = 0
          then (Inl Repo_no_active_assignment_found_to_unassign, db')
          else (Inr (), db'))"

definition IsDeviceAssigned :: "DB \<Rightarrow> uuid \<Rightarrow> bool" where
  "IsDeviceAssigned db deviceID =
     list_ex (\<lambda>a. DeviceID a = deviceID \<and> UnassignedAt a = None) (assignments db)"

definition IsDeviceAssignedToUser :: "DB \<Rightarrow> uuid \<Rightarrow> string \<Rightarrow> bool" where
  "IsDeviceAssignedToUser db deviceID userID =
     list_ex (\<lambda>a. DeviceID a = deviceID \<and> UserID a = userID \<and> UnassignedAt a = None)
       (assignments db)"

section \<open>Certificates (pkg/auth)\<close>

text \<open>
  Of an \<open>x509.Certificate\<close> the code reads three fields: \<open>SerialNumber\<close>, a \<open>*big.Int\<close>
  that may be \<open>nil\<close>, and the common names of issuer and subject. A \<open>nil\<close> certificate is
  \<open>None\<close>.
\<close>

record Certificate =
  cert_SerialNumber :: "int option"
  cert_Issuer_CommonName :: string
  cert_Subject_CommonName :: string

record CertificateInfo =
  SerialNumber :: string
  IssuerCN :: string
  SubjectCN :: string
  IsValid :: bool

text \<open>
  \<open>fmt.Sprintf("%X", n)\<close> on a \<open>*big.Int\<close>: the digits of \<open>|n|\<close> in base 16, most
  significant first, upper case, no leading zeros, a minus sign in front when \<open>n < 0\<close>.
\<close>

definition hex_digit :: "nat \<Rightarrow> char" where
  "hex_digit k = ''0123456789ABCDEF'' ! (k mod 16)"

fun to_hex :: "nat \<Rightarrow> string" where
  "to_hex n = (if n < 16 then [hex_digit n] else to_hex (n div 16) @ [hex_digit (n mod 16)])"

declare to_hex.simps [simp del]

definition formatSerialNumber :: "int option \<Rightarrow> string" where
  "formatSerialNumber serialNumber =
     (case serialNumber of
        None \<Rightarrow> []
      | Some n \<Rightarrow> if n < 0 then CHR ''-'' # to_hex (nat (- n)) else to_hex (nat n))"

definition extractCommonName :: "string \<Rightarrow> string" where
  "extractCommonName cn = cn"

definition ExtractCertificateInfo :: "Certificate option \<Rightarrow> CertificateInfo" where
  "ExtractCertificateInfo cert =
     (case cert of
        None \<Rightarrow> \<lparr>SerialNumber = [], IssuerCN = [], SubjectCN = [], IsValid = False\<rparr>
      | Some c \<Rightarrow>
          \<lparr>SerialNumber = formatSerialNumber (cert_SerialNumber c),
           IssuerCN = extractCommonName (cert_Issuer_CommonName c),
           SubjectCN = extractCommonName (cert_Subject_CommonName c),
           IsValid = True\<rparr>)"

datatype cert_error =
    certificate_is_nil
  | certificate_serial_number_is_missing
  | certificate_issuer_common_name_is_missing

definition ValidateCertificate :: "Certificate option \<Rightarrow> cert_error option" where
  "ValidateCertificate cert =
     (case cert of
        None \<Rightarrow> Some certificate_is_nil
      | Some c \<Rightarrow>
          if cert_SerialNumber c = None then Some certificate_serial_number_is_missing
          else if cert_Issuer_CommonName c = [] then Some certificate_issuer_common_name_is_missing
          else None)"

text \<open>The inverse reading of a rendered serial number, used to state that it is canonical.\<close>

definition hex_value :: "char \<Rightarrow> nat" where
  "hex_value c = (case find (\<lambda>k. hex_digit k = c) [0..<16] of Some k \<Rightarrow> k | None \<Rightarrow> 0)"

definition of_hex :: "string \<Rightarrow> nat" where
  "of_hex s = foldl (\<lambda>acc c. 16 * acc + hex_value c) 0 s"

definition parseSerialNumber :: "string \<Rightarrow> int" where
  "parseSerialNumber s =
     (case s of
        [] \<Rightarrow> 0
      | c # cs \<Rightarrow> if c = CHR ''-'' then - int (of_hex cs) else int (of_hex s))"

section \<open>The device service (internal/services)\<close>

definition AuthenticateAndRegisterDevice ::
  "DB \<Rightarrow> CertificateInfo option \<Rightarrow> uuid \<Rightarrow> time \<Rightarrow> (error + Device) \<times> DB" where
  "AuthenticateAndRegisterDevice db certInfo new_uuid now =
     (case certInfo of
        None \<Rightarrow> (Inl Svc_invalid_certificate_information, db)
      | Some ci \<Rightarrow>
          if \<not> IsValid ci then (Inl Svc_invalid_certificate_information, db)
          else
            (case GetDeviceBySerialNumber db (SerialNumber ci) of
               Inr existingDevice \<Rightarrow> (Inr existingDevice, db)
             | Inl _ \<Rightarrow>
                 (case CreateDevice db (NewDevice new_uuid now (SerialNumber ci) (IssuerCN ci)) of
                    Inl err \<Rightarrow> (Inl (Svc_failed_to_register_device err), db)
                  | Inr db' \<Rightarrow> (Inr (NewDevice new_uuid now (SerialNumber ci) (IssuerCN ci)), db'))))"

definition AssignDeviceToUser ::
  "DB \<Rightarrow> uuid \<Rightarrow> string \<Rightarrow> uuid \<Rightarrow> time \<Rightarrow> (error + unit) \<times> DB" where
  "AssignDeviceToUser db deviceID userID new_uuid now =
     (case GetDeviceByID db deviceID of
        Inl _ \<Rightarrow> (Inl Svc_device_not_found, db)
      | Inr _ \<Rightarrow>
          if IsDeviceAssigned db deviceID then (Inl Svc_device_is_already_assigned, db)
          else
            (case CreateAssignment db (NewAssignment new_uuid now deviceID userID) of
               Inl err \<Rightarrow> (Inl (Svc_failed_to_assign_device err), db)
             | Inr db' \<Rightarrow> (Inr (), db')))"

definition DeviceService_UnassignDevice :: "DB \<Rightarrow> uuid \<Rightarrow> time \<Rightarrow> (error + unit) \<times> DB" where
  "DeviceService_UnassignDevice db deviceID now =
     (case GetDeviceByID db deviceID of
        Inl _ \<Rightarrow> (Inl Svc_device_not_found, db)
      | Inr _ \<Rightarrow>
          (case AssignmentRepository_UnassignDevice db deviceID now of
             (Inl err, db') \<Rightarrow> (Inl (Svc_failed_to_unassign_device err), db')
           | (Inr _, db') \<Rightarrow> (Inr (), db')))"

definition CanUserAccessDevice :: "DB \<Rightarrow> uuid \<Rightarrow> string \<Rightarrow> bool" where
  "CanUserAccessDevice db deviceID userID = IsDeviceAssignedToUser db deviceID userID"


section \<open>HTTP handlers and middleware (internal/handlers, internal/middleware)\<close>

text \<open>
  What the caller sees of a response is its status code and body. \<open>http.Error\<close> writes
  the message followed by a newline. The handlers receive the device id as the result of
  \<open>uuid.Parse\<close> on the path segment (\<open>None\<close> when it does not parse) and the user id as the
  value stored in the request context by the JWT middleware (\<open>None\<close> when there is none).
\<close>

record response =
  status :: nat
  body :: string

definition http_Error :: "string \<Rightarrow> nat \<Rightarrow> response" where
  "http_Error msg code = \<lparr>status = code, body = msg @ [CHR 0x0A]\<rparr>"

definition json_message :: "string \<Rightarrow> string" where
  "json_message m =
     ''{'' @ [CHR 0x22] @ ''message'' @ [CHR 0x22] @ '': '' @ [CHR 0x22] @ m @ [CHR 0x22] @ ''}''"

definition GetUserIDFromContext :: "string option \<Rightarrow> string option" where
  "GetUserIDFromContext ctx =
     (case ctx of
        None \<Rightarrow> None
      | Some userID \<Rightarrow> if userID = [] then None else Some userID)"


definition DeviceHandler_UnassignDevice ::
  "DB \<Rightarrow> uuid option \<Rightarrow> string option \<Rightarrow> time \<Rightarrow> response \<times> DB" where
  "DeviceHandler_UnassignDevice db parsedID ctx now =
     (case parsedID of
        None \<Rightarrow> (http_Error ''Invalid device ID'' 400, db)
      | Some deviceID \<Rightarrow>
          (case GetUserIDFromContext ctx of
             None \<Rightarrow> (http_Error ''Authentication required'' 401, db)
           | Some userID \<Rightarrow>
               if \<not> CanUserAccessDevice db deviceID userID
               then (http_Error ''Device not found or not assigned to you'' 404, db)
               else
                 (case DeviceService_UnassignDevice db deviceID now of
                    (Inl err, db') \<Rightarrow> (http_Error ''Failed to unassign device'' 500, db')
                  | (Inr _, db') \<Rightarrow>
                      (\<lparr>status = 200, body = json_message ''Device unassigned successfully''\<rparr>, db'))))"

text \<open>
  The certificate middleware, from the peer certificates of the TLS connection
  (\<open>None\<close> when the request has no TLS state) to the \<open>CertificateInfo\<close> it puts into the
  request context, or the response it sends instead.
\<close>

definition CertificateAuthMiddleware_Authenticate ::
  "Certificate option list option \<Rightarrow> response + CertificateInfo" where
  "CertificateAuthMiddleware_Authenticate tls =
     (case tls of
        None \<Rightarrow> Inl (http_Error ''TLS connection required'' 400)
      | Some [] \<Rightarrow> Inl (http_Error ''Client certificate required'' 401)
      | Some (clientCert # _) \<Rightarrow>
          (case ValidateCertificate clientCert of
             Some _ \<Rightarrow> Inl (http_Error ''Invalid client certificate'' 401)
           | None \<Rightarrow>
               if \<not> IsValid (ExtractCertificateInfo clientCert)
               then Inl (http_Error ''Invalid certificate information'' 401)
               else Inr (ExtractCertificateInfo clientCert)))"

section \<open>Bearer tokens (pkg/auth/jwt.go)\<close>

text \<open>
  \<open>GenerateToken\<close> and \<open>ValidateToken\<close> are written against the library
  \<open>github.com/golang-jwt/jwt/v5\<close>. The part of the library they call is modelled here as
  the library documents it:
  \<^item> a signing method is one of the library's families (\<open>*SigningMethodHMAC\<close>,
    \<open>*SigningMethodRSA\<close>, ...), instantiated with a hash; \<open>SigningMethodHS256\<close> is the
    HMAC family with SHA-256;
  \<^item> a \<open>NumericDate\<close> is a \<open>time.Time\<close> in whole seconds: \<open>NewNumericDate\<close> truncates its
    argument to the second (the library's default \<open>TimePrecision\<close>), and the parser
    reads whole seconds; the validator compares such dates with the clock, which has
    nanoseconds;
  \<^item> cryptography is symbolic: the signature that a method computes with a key over the
    header and claims is the term \<open>Sign method key claims\<close>, equal to no other
    signature; \<open>Bytes\<close> stands for any other content of the signature segment;
  \<^item> the compact serialisation (base64url of JSON, joined by dots) is not modelled: a
    token string is what the library's parser reads from it, either nothing
    (\<open>malformed\<close>) or a signing method, the claims and a signature;
  \<^item> the validator rejects a token whose \<open>exp\<close> is not after the current time
    (\<open>ErrTokenExpired\<close>) or whose \<open>nbf\<close> is after it (\<open>ErrTokenNotValidYet\<close>); a claim that
    is absent is not checked.
\<close>

datatype hash = SHA256 | SHA384 | SHA512

datatype SigningMethod =
    SigningMethodHMAC hash
  | SigningMethodRSA hash
  | SigningMethodRSAPSS hash
  | SigningMethodECDSA hash
  | SigningMethodEd25519
  | SigningMethodNone

definition SigningMethodHS256 :: SigningMethod where
  "SigningMethodHS256 = SigningMethodHMAC SHA256"

record Claims =
  Claims_UserID :: string
  Issuer :: string
  Subject :: string
  IssuedAt :: "time option"
  ExpiresAt :: "time option"
  NotBefore :: "time option"

datatype signature = Sign SigningMethod string Claims | Bytes string

datatype tokenString = malformed | compact SigningMethod Claims signature

record Token =
  Method :: SigningMethod
  Token_Claims :: Claims
  Signature :: signature
  Valid :: bool

datatype claim_error = ErrTokenExpired | ErrTokenNotValidYet

datatype jwt_error =
    ErrTokenMalformed
  | ErrTokenUnverifiable
  | ErrTokenSignatureInvalid
  | ErrTokenInvalidClaims "claim_error list"
  | ErrInvalidKeyType

datatype token_error =
    failed_to_sign_token jwt_error
  | failed_to_parse_token jwt_error
  | invalid_token_claims
  | user_ID_is_missing_from_token

text \<open>
  \<open>SigningMethod.Verify\<close> and \<open>Token.SignedString\<close> with a key of type \<open>[]byte\<close>: only
  the HMAC family works with such a key.
\<close>

definition Verify :: "SigningMethod \<Rightarrow> Claims \<Rightarrow> signature \<Rightarrow> string \<Rightarrow> bool" where
  "Verify m c sig key =
     (case m of
        SigningMethodHMAC h \<Rightarrow> sig = Sign (SigningMethodHMAC h) key c
      | _ \<Rightarrow> False)"

definition SignedString :: "SigningMethod \<Rightarrow> Claims \<Rightarrow> string \<Rightarrow> jwt_error + tokenString" where
  "SignedString m c key =
     (case m of
        SigningMethodHMAC h \<Rightarrow> Inr (compact m c (Sign m key c))
      | _ \<Rightarrow> Inl ErrInvalidKeyType)"

definition Validate :: "time \<Rightarrow> Claims \<Rightarrow> claim_error list" where
  "Validate now c =
     (case ExpiresAt c of
        None \<Rightarrow> []
      | Some exp \<Rightarrow> if now < exp then [] else [ErrTokenExpired])
     @ (case NotBefore c of
          None \<Rightarrow> []
        | Some nbf \<Rightarrow> if now < nbf then [ErrTokenNotValidYet] else [])"

definition ParseWithClaims ::
  "time \<Rightarrow> tokenString \<Rightarrow> (Token \<Rightarrow> string option) \<Rightarrow> jwt_error + Token" where
  "ParseWithClaims now ts keyFunc =
     (case ts of
        malformed \<Rightarrow> Inl ErrTokenMalformed
      | compact m c sig \<Rightarrow>
          (case keyFunc \<lparr>Method = m, Token_Claims = c, Signature = sig, Valid = False\<rparr> of
             None \<Rightarrow> Inl ErrTokenUnverifiable
           | Some key \<Rightarrow>
               if \<not> Verify m c sig key then Inl ErrTokenSignatureInvalid
               else if Validate now c \<noteq> [] then Inl (ErrTokenInvalidClaims (Validate now c))
               else Inr \<lparr>Method = m, Token_Claims = c, Signature = sig, Valid = True\<rparr>))"

definition NewNumericDate :: "time \<Rightarrow> time" where
  "NewNumericDate t = t - t mod 1000000000"

text \<open>
  The manager's \<open>tokenDuration\<close> is a \<open>time.Duration\<close>, a number of nanoseconds, and
  \<open>now.Add\<close> adds it to the nanoseconds of the clock before \<open>NewNumericDate\<close> truncates
  the sum.
\<close>

record JWTManager =
  secretKey :: string
  tokenDuration :: int
  issuer :: string

definition GenerateToken :: "JWTManager \<Rightarrow> time \<Rightarrow> string \<Rightarrow> token_error + tokenString" where
  "GenerateToken j now userID =
     (case SignedString SigningMethodHS256
             \<lparr>Claims_UserID = userID,
              Issuer = issuer j,
              Subject = userID,
              IssuedAt = Some (NewNumericDate now),
              ExpiresAt = Some (NewNumericDate (now + tokenDuration j)),
              NotBefore = Some (NewNumericDate now)\<rparr>
             (secretKey j) of
        Inl err \<Rightarrow> Inl (failed_to_sign_token err)
      | Inr tokenString \<Rightarrow> Inr tokenString)"

text \<open>
  The key function of \<open>ValidateToken\<close> tests the dynamic type of \<open>token.Method\<close>: any
  method of the HMAC family gets the secret key, every other method an error.
\<close>

definition ValidateToken :: "JWTManager \<Rightarrow> time \<Rightarrow> tokenString \<Rightarrow> token_error + Claims" where
  "ValidateToken j now tokenString =
     (case ParseWithClaims now tokenString
             (\<lambda>token. case Method token of
                         SigningMethodHMAC _ \<Rightarrow> Some (secretKey j)
                       | _ \<Rightarrow> None) of
        Inl err \<Rightarrow> Inl (failed_to_parse_token err)
      | Inr token \<Rightarrow>
          if \<not> Valid token then Inl invalid_token_claims
          else if Claims_UserID (Token_Claims token) = [] then Inl user_ID_is_missing_from_token
          else Inr (Token_Claims token))"

definition ExtractUserIDFromToken ::
  "JWTManager \<Rightarrow> time \<Rightarrow> tokenString \<Rightarrow> token_error + string" where
  "ExtractUserIDFromToken j now tokenString =
     (case ValidateToken j now tokenString of
        Inl err \<Rightarrow> Inl err
      | Inr claims \<Rightarrow> Inr (Claims_UserID claims))"

section \<open>Concurrent requests\<close>

text \<open>
  The HTTP server runs every request in its own goroutine, and the service holds no lock,
  so between two statements that one call of \<open>AssignDeviceToUser\<close> sends to the database
  another call may send its own. A call in progress is its arguments, the identifier and
  the time it will draw for \<open>NewAssignment\<close>, and the statement it is at; \<open>assign_step\<close>
  runs that statement. \<open>interleave\<close> runs several calls on one database in the order
  given by a schedule, a list of positions in the list of calls.
\<close>

datatype assign_pc =
    at_GetDeviceByID
  | at_IsDeviceAssigned
  | at_CreateAssignment
  | returned "error + unit"

record assign_call =
  arg_deviceID :: uuid
  arg_userID :: string
  gen_uuid :: uuid
  gen_now :: time
  pc :: assign_pc

definition start_assign :: "uuid \<Rightarrow> string \<Rightarrow> uuid \<Rightarrow> time \<Rightarrow> assign_call" where
  "start_assign deviceID userID new_uuid now =
     \<lparr>arg_deviceID = deviceID, arg_userID = userID, gen_uuid = new_uuid, gen_now = now,
      pc = at_GetDeviceByID\<rparr>"

definition assign_step :: "DB \<Rightarrow> assign_call \<Rightarrow> DB \<times> assign_call" where
  "assign_step db c =
     (case pc c of
        at_GetDeviceByID \<Rightarrow>
          (case GetDeviceByID db (arg_deviceID c) of
             Inl _ \<Rightarrow> (db, c\<lparr>pc := returned (Inl Svc_device_not_found)\<rparr>)
           | Inr _ \<Rightarrow> (db, c\<lparr>pc := at_IsDeviceAssigned\<rparr>))
      | at_IsDeviceAssigned \<Rightarrow>
          if IsDeviceAssigned db (arg_deviceID c)
          then (db, c\<lparr>pc := returned (Inl Svc_device_is_already_assigned)\<rparr>)
          else (db, c\<lparr>pc := at_CreateAssignment\<rparr>)
      | at_CreateAssignment \<Rightarrow>
          (case CreateAssignment db
                  (NewAssignment (gen_uuid c) (gen_now c) (arg_deviceID c) (arg_userID c)) of
             Inl err \<Rightarrow> (db, c\<lparr>pc := returned (Inl (Svc_failed_to_assign_device err))\<rparr>)
           | Inr db' \<Rightarrow> (db', c\<lparr>pc := returned (Inr ())\<rparr>))
      | returned r \<Rightarrow> (db, c))"

fun interleave :: "nat list \<Rightarrow> DB \<Rightarrow> assign_call list \<Rightarrow> DB \<times> assign_call list" where
  "interleave [] db cs = (db, cs)"
| "interleave (i # sched) db cs =
     (if i < length cs
      then (case assign_step db (cs ! i) of (db', c') \<Rightarrow> interleave sched db' (cs[i := c']))
      else interleave sched db cs)"

section \<open>Invariants and sequences of calls\<close>

text \<open>
  The foreign key of \<open>assignments\<close>, and the single-owner invariant: no device has more
  than one active row. \<open>reachable\<close> are the states that calls of the service, each run to
  its end before the next starts, produce from the empty database.
\<close>

definition fk_ok :: "DB \<Rightarrow> bool" where
  "fk_ok db =
     list_all (\<lambda>a. list_ex (\<lambda>x. Device_ID x = DeviceID a) (devices db)) (assignments db)"

definition single_active :: "DB \<Rightarrow> bool" where
  "single_active db =
     list_all (\<lambda>a. length (active_rows db (DeviceID a)) \<le> 1) (assignments db)"

inductive reachable :: "DB \<Rightarrow> bool" where
  initial: "reachable \<lparr>devices = [], assignments = []\<rparr>"
| authenticate:
    "reachable db \<Longrightarrow> reachable (snd (AuthenticateAndRegisterDevice db certInfo i t))"
| assign: "reachable db \<Longrightarrow> reachable (snd (AssignDeviceToUser db d u i t))"
| unassign: "reachable db \<Longrightarrow> reachable (snd (DeviceService_UnassignDevice db d t))"


section \<open>Example values\<close>

text \<open>
  The example of the specification: a certificate with serial number \<open>ABC123\<close> (decimal
  11256099) issued by \<open>TestCA\<close>, the database after its device has registered as device 1,
  and a token manager with the default lifetime of 24 hours (86400000000000
  nanoseconds).
\<close>

definition example_cert :: Certificate where
  "example_cert =
     \<lparr>cert_SerialNumber = Some 11256099, cert_Issuer_CommonName = ''TestCA'',
      cert_Subject_CommonName = ''TestDevice001''\<rparr>"

definition example_db :: DB where
  "example_db = \<lparr>devices = [NewDevice 1 0 ''ABC123'' ''TestCA''], assignments = []\<rparr>"

definition example_jwt :: JWTManager where
  "example_jwt =
     \<lparr>secretKey = ''secret'', tokenDuration = 86400000000000, issuer = ''device-assignment-api''\<rparr>"


section \<open>Facts about the column types\<close>

text \<open>
  What a column \<open>VARCHAR(n)\<close> stores is at most \<open>n\<close> characters long and is stored
  unchanged when written again; a string without spaces is stored as it is or refused. A
  column \<open>TIMESTAMP WITH TIME ZONE\<close> moves a time by at most 500 nanoseconds and keeps a
  time that is a whole number of microseconds.
\<close>

lemma varchar_fits: "length s \<le> n \<Longrightarrow> varchar n s = Inr s"
  by (simp add: varchar_def)



lemma varchar_Inr_length: "varchar n s = Inr s' \<Longrightarrow> length s' \<le> n"
  by (auto simp: varchar_def split: if_splits)

lemma varchar_idem: "varchar n s = Inr s' \<Longrightarrow> varchar n s' = Inr s'"
  by (simp add: varchar_fits varchar_Inr_length)

lemma timestamptz_idem: "timestamptz (timestamptz t) = timestamptz t"
  by (simp add: timestamptz_def)



lemma timestamptz_micro: "t mod 1000 = 0 \<Longrightarrow> timestamptz t = t"
proof -
  assume "t mod 1000 = 0"
  then obtain k where k: "t = 1000 * k" by (auto simp: mod_eq_0_iff_dvd)
  show ?thesis unfolding timestamptz_def k by simp
qed

section \<open>Facts about the store\<close>

lemma unassign_map_no_active:
  "filter (\<lambda>a. DeviceID a = d \<and> UnassignedAt a = None)
     (map (\<lambda>a. if DeviceID a = d \<and> UnassignedAt a = None
               then a\<lparr>UnassignedAt := Some now\<rparr> else a) xs) = []"
  by (induction xs) auto

lemma unassign_map_other:
  "d' \<noteq> d \<Longrightarrow>
   filter (\<lambda>a. DeviceID a = d' \<and> UnassignedAt a = None)
     (map (\<lambda>a. if DeviceID a = d \<and> UnassignedAt a = None
               then a\<lparr>UnassignedAt := Some now\<rparr> else a) xs)
   = filter (\<lambda>a. DeviceID a = d' \<and> UnassignedAt a = None) xs"
  by (induction xs) auto

lemma unassign_map_id:
  "filter (\<lambda>a. DeviceID a = d \<and> UnassignedAt a = None) xs = [] \<Longrightarrow>
   map (\<lambda>a. if DeviceID a = d \<and> UnassignedAt a = None
             then a\<lparr>UnassignedAt := Some now\<rparr> else a) xs = xs"
  by (induction xs) (auto split: if_splits)

lemma active_rows_exec_unassign:
  "active_rows (fst (exec_unassign db d now)) d = []"
  by (simp add: exec_unassign_def active_rows_def unassign_map_no_active)

lemma active_rows_exec_unassign_other:
  "d' \<noteq> d \<Longrightarrow> active_rows (fst (exec_unassign db d now)) d' = active_rows db d'"
  by (simp add: exec_unassign_def active_rows_def unassign_map_other)

lemma exec_unassign_none_active:
  "active_rows db d = [] \<Longrightarrow> fst (exec_unassign db d now) = db"
  by (simp add: exec_unassign_def active_rows_def unassign_map_id)

lemma IsDeviceAssigned_active_rows:
  "IsDeviceAssigned db d = (active_rows db d \<noteq> [])"
  by (simp add: IsDeviceAssigned_def active_rows_def filter_empty_conv list_ex_iff)

section \<open>Facts about the service\<close>

lemma find_key_None: "(find (\<lambda>x. f x = k) xs = None) = (k \<notin> f ` set xs)"
  by (induction xs) auto

lemma find_key_Some: "find (\<lambda>x. f x = k) xs = Some y \<Longrightarrow> f y = k \<and> y \<in> set xs"
  by (induction xs) (auto split: if_splits)

lemma list_ex_key: "list_ex (\<lambda>x. f x = k) xs = (k \<in> f ` set xs)"
  by (induction xs) auto

lemma isl_GetDeviceByID:
  "isl (GetDeviceByID db d) = (d \<notin> Device_ID ` set (devices db))"
  by (simp add: GetDeviceByID_def find_key_None[symmetric] split: option.splits)

lemma GetDeviceByID_Inr:
  "GetDeviceByID db d = Inr x \<Longrightarrow> Device_ID x = d \<and> x \<in> set (devices db)"
  by (auto simp: GetDeviceByID_def split: option.splits dest: find_key_Some)

lemma active_rows_append:
  "active_rows (db\<lparr>assignments := assignments db @ [a]\<rparr>) d =
     active_rows db d @ (if DeviceID a = d \<and> UnassignedAt a = None then [a] else [])"
  by (simp add: active_rows_def)

lemma fk_ok_iff: "fk_ok db = (DeviceID ` set (assignments db) \<subseteq> Device_ID ` set (devices db))"
  by (auto simp: fk_ok_def list_all_iff list_ex_key)

lemma IsDeviceAssignedToUser_iff:
  "IsDeviceAssignedToUser db d u = (\<exists>a \<in> set (active_rows db d). UserID a = u)"
  by (auto simp: IsDeviceAssignedToUser_def active_rows_def list_ex_iff)

lemma fk_ok_no_rows:
  "fk_ok db \<Longrightarrow> d \<notin> Device_ID ` set (devices db) \<Longrightarrow> active_rows db d = []"
  by (auto simp: fk_ok_iff active_rows_def filter_empty_conv)


lemma isl_GetDeviceBySerialNumber:
  "isl (GetDeviceBySerialNumber db s) = (s \<notin> CertificateSerialNumber ` set (devices db))"
  by (simp add: GetDeviceBySerialNumber_def find_key_None[symmetric] split: option.splits)


lemma latest_UserID: "\<forall>b \<in> set (a # bs). UserID b = u \<Longrightarrow> UserID (latest a bs) = u"
  by (induction bs arbitrary: a) auto



lemma AssignmentRepository_UnassignDevice_cases:
  "AssignmentRepository_UnassignDevice db d now =
     (if active_rows db d = [] then (Inl Repo_no_active_assignment_found_to_unassign, db)
      else (Inr (), fst (exec_unassign db d now)))"
proof -
  have "snd (exec_unassign db d now) = length (active_rows db d)"
    by (simp add: exec_unassign_def)
  then show ?thesis
    using exec_unassign_none_active[of db d now]
    by (simp add: AssignmentRepository_UnassignDevice_def case_prod_beta)
qed

lemma DeviceService_UnassignDevice_cases:
  "DeviceService_UnassignDevice db d now =
     (if d \<notin> Device_ID ` set (devices db) then (Inl Svc_device_not_found, db)
      else if active_rows db d = []
      then (Inl (Svc_failed_to_unassign_device Repo_no_active_assignment_found_to_unassign), db)
      else (Inr (), fst (exec_unassign db d now)))"
proof (cases "GetDeviceByID db d")
  case (Inl e)
  then have "d \<notin> Device_ID ` set (devices db)"
    using isl_GetDeviceByID[of db d] by simp
  with Inl show ?thesis by (simp add: DeviceService_UnassignDevice_def)
next
  case (Inr x)
  then have ex: "d \<in> Device_ID ` set (devices db)"
    using isl_GetDeviceByID[of db d] by simp
  with Inr show ?thesis
    by (simp add: DeviceService_UnassignDevice_def AssignmentRepository_UnassignDevice_cases)
qed

lemma exec_unassign_ids:
  "map Assignment_ID (assignments (fst (exec_unassign db d now))) = map Assignment_ID (assignments db)"
  by (simp add: exec_unassign_def comp_def if_distrib cong: if_cong)

lemma exec_unassign_id_set:
  "Assignment_ID ` set (assignments (fst (exec_unassign db d now))) = Assignment_ID ` set (assignments db)"
  using arg_cong[OF exec_unassign_ids[of db d now], of set] by simp

lemma exec_unassign_devices:
  "devices (fst (exec_unassign db d now)) = devices db"
  by (simp add: exec_unassign_def)

lemma AssignDeviceToUser_cases:
  "AssignDeviceToUser db d u i now =
     (if d \<notin> Device_ID ` set (devices db) then (Inl Svc_device_not_found, db)
      else if active_rows db d \<noteq> [] then (Inl Svc_device_is_already_assigned, db)
      else (case varchar 255 u of
              Inl e \<Rightarrow>
                (Inl (Svc_failed_to_assign_device (Repo_failed_to_create_assignment e)), db)
            | Inr u' \<Rightarrow>
                if i \<in> Assignment_ID ` set (assignments db)
                then (Inl (Svc_failed_to_assign_device
                             (Repo_failed_to_create_assignment unique_violation)), db)
                else (Inr (), db\<lparr>assignments := assignments db @
                                [NewAssignment i (timestamptz now) d u']\<rparr>)))"
proof (cases "GetDeviceByID db d")
  case (Inl e)
  then have "d \<notin> Device_ID ` set (devices db)"
    using isl_GetDeviceByID[of db d] by simp
  with Inl show ?thesis by (simp add: AssignDeviceToUser_def)
next
  case (Inr x)
  then have ex: "d \<in> Device_ID ` set (devices db)"
    using isl_GetDeviceByID[of db d] by simp
  with Inr show ?thesis
    by (simp add: AssignDeviceToUser_def IsDeviceAssigned_active_rows CreateAssignment_def
        list_ex_key NewAssignment_def split: sum.splits)
qed








section \<open>Facts about tokens\<close>

lemma ValidateToken_compact:
  "ValidateToken j now (compact m cl sig) =
     (case m of
        SigningMethodHMAC h \<Rightarrow>
          if sig \<noteq> Sign m (secretKey j) cl then Inl (failed_to_parse_token ErrTokenSignatureInvalid)
          else if Validate now cl \<noteq> [] then Inl (failed_to_parse_token (ErrTokenInvalidClaims (Validate now cl)))
          else if Claims_UserID cl = [] then Inl user_ID_is_missing_from_token
          else Inr cl
      | _ \<Rightarrow> Inl (failed_to_parse_token ErrTokenUnverifiable))"
  by (cases m) (simp_all add: ValidateToken_def ParseWithClaims_def Verify_def)

lemma Validate_Nil:
  "(Validate now cl = []) =
     ((\<forall>e. ExpiresAt cl = Some e \<longrightarrow> now < e) \<and> (\<forall>n. NotBefore cl = Some n \<longrightarrow> n \<le> now))"
  by (auto simp: Validate_def split: option.splits)

lemma NewNumericDate_eq: "NewNumericDate t = t div 1000000000 * 1000000000"
  unfolding NewNumericDate_def by (rule minus_mod_eq_div_mult)

lemma NewNumericDate_mod: "NewNumericDate t mod 1000000000 = 0"
  by (simp add: NewNumericDate_eq)

lemma NewNumericDate_le: "NewNumericDate t \<le> t"
proof -
  have "0 \<le> t mod 1000000000" by simp
  then show ?thesis unfolding NewNumericDate_def by linarith
qed

lemma NewNumericDate_gt: "t < NewNumericDate t + 1000000000"
proof -
  have "t mod 1000000000 < 1000000000" by simp
  then show ?thesis unfolding NewNumericDate_def by linarith
qed

lemma NewNumericDate_whole: "t mod 1000000000 = 0 \<Longrightarrow> NewNumericDate t = t"
  by (simp add: NewNumericDate_def)

lemma NewNumericDate_add_whole:
  assumes "d mod 1000000000 = 0"
  shows "NewNumericDate (t + d) = NewNumericDate t + d"
proof -
  have "(t + d) mod 1000000000 = (t mod 1000000000 + d mod 1000000000) mod 1000000000"
    by (rule mod_add_eq[symmetric])
  also have "\<dots> = t mod 1000000000" using assms by simp
  finally show ?thesis by (simp add: NewNumericDate_def)
qed

lemma NewNumericDate_greatest:
  assumes "m mod 1000000000 = 0" and "m \<le> t"
  shows "m \<le> NewNumericDate t"
proof -
  have "m div 1000000000 \<le> t div 1000000000"
    using assms(2) by (rule zdiv_mono1) simp
  then have "m div 1000000000 * 1000000000 \<le> t div 1000000000 * 1000000000"
    by simp
  moreover have "m div 1000000000 * 1000000000 = m"
    using assms(1) by (simp add: minus_mod_eq_div_mult[symmetric])
  ultimately show ?thesis by (simp add: NewNumericDate_eq)
qed

lemma half_before_expiry:
  assumes "1000000000 \<le> d"
  shows "NewNumericDate t + d div 2 < NewNumericDate (t + d)"
proof -
  have m: "(NewNumericDate t + NewNumericDate d) mod 1000000000 = 0"
    by (simp add: NewNumericDate_eq)
  have "NewNumericDate t + NewNumericDate d \<le> t + d"
    using NewNumericDate_le[of t] NewNumericDate_le[of d] by linarith
  with m have ge: "NewNumericDate t + NewNumericDate d \<le> NewNumericDate (t + d)"
    by (rule NewNumericDate_greatest)
  have "1000000000 \<le> NewNumericDate d"
    using assms by (intro NewNumericDate_greatest) simp_all
  moreover have "d < NewNumericDate d + 1000000000" by (rule NewNumericDate_gt)
  moreover have "2 * (d div 2) \<le> d" by simp
  ultimately have "d div 2 < NewNumericDate d" by linarith
  with ge show ?thesis by linarith
qed

section \<open>Facts about concurrent calls\<close>

text \<open>
  A call that runs its three statements with no other call in between is the function
  \<open>AssignDeviceToUser\<close>: same result, same database. From every database in which a
  device is registered and unowned, two calls that alternate statement by statement both
  succeed and leave two active rows.
\<close>

lemma interleave_alone:
  "interleave [0, 0, 0] db [start_assign d u i now] =
     (snd (AssignDeviceToUser db d u i now),
      [(start_assign d u i now)\<lparr>pc := returned (fst (AssignDeviceToUser db d u i now))\<rparr>])"
  by (simp add: assign_step_def start_assign_def AssignDeviceToUser_def
      split: sum.splits)

lemma race_from_any_unowned_device:
  assumes "d \<in> Device_ID ` set (devices db)" and "active_rows db d = []"
    and "i1 \<notin> Assignment_ID ` set (assignments db)"
    and "i2 \<notin> Assignment_ID ` set (assignments db)" and "i1 \<noteq> i2"
    and "varchar 255 u1 = Inr u1'" and "varchar 255 u2 = Inr u2'"
  shows "interleave [0, 1, 0, 1, 0, 1] db [start_assign d u1 i1 t1, start_assign d u2 i2 t2] =
           (db\<lparr>assignments := assignments db @
                 [NewAssignment i1 (timestamptz t1) d u1', NewAssignment i2 (timestamptz t2) d u2']\<rparr>,
            [(start_assign d u1 i1 t1)\<lparr>pc := returned (Inr ())\<rparr>,
             (start_assign d u2 i2 t2)\<lparr>pc := returned (Inr ())\<rparr>])"
proof -
  from assms(1) obtain x where x: "GetDeviceByID db d = Inr x"
    using isl_GetDeviceByID[of db d] by (cases "GetDeviceByID db d") auto
  have na: "\<not> IsDeviceAssigned db d"
    using assms(2) by (simp add: IsDeviceAssigned_active_rows)
  let ?a = "NewAssignment i1 (timestamptz t1) d u1'"
  let ?b = "NewAssignment i2 (timestamptz t2) d u2'"
  let ?db1 = "db\<lparr>assignments := assignments db @ [?a]\<rparr>"
  have c1: "CreateAssignment db (NewAssignment i1 t1 d u1) = Inr ?db1"
    using assms(1,3,6) by (simp add: CreateAssignment_def list_ex_key NewAssignment_def)
  have c2: "CreateAssignment ?db1 (NewAssignment i2 t2 d u2)
              = Inr (db\<lparr>assignments := assignments db @ [?a, ?b]\<rparr>)"
    using assms(1,4,5,7) by (simp add: CreateAssignment_def list_ex_key NewAssignment_def)
  show ?thesis
    using x na c1 c2 by (simp add: assign_step_def start_assign_def)
qed

section \<open>Facts about serial numbers\<close>

lemma hex_digit_in: "hex_digit k \<in> set ''0123456789ABCDEF''"
  unfolding hex_digit_def by (rule nth_mem) simp

lemma to_hex_chars: "set (to_hex n) \<subseteq> set ''0123456789ABCDEF''"
proof (induction n rule: to_hex.induct)
  case (1 n)
  show ?case
  proof (cases "n < 16")
    case True
    then show ?thesis using hex_digit_in[of n] by (subst to_hex.simps) simp
  next
    case False
    with 1 hex_digit_in[of "n mod 16"] show ?thesis by (subst to_hex.simps) simp
  qed
qed

lemma hex_value_digit: "k < 16 \<Longrightarrow> hex_value (hex_digit k) = k"
proof -
  assume "k < 16"
  then have "k = 0 \<or> k = 1 \<or> k = 2 \<or> k = 3 \<or> k = 4 \<or> k = 5 \<or> k = 6 \<or> k = 7 \<or> k = 8
      \<or> k = 9 \<or> k = 10 \<or> k = 11 \<or> k = 12 \<or> k = 13 \<or> k = 14 \<or> k = 15" by arith
  then show ?thesis
    by (auto simp: hex_value_def hex_digit_def upt_rec[of _ "numeral _"] upt_rec[of 0 "numeral _"])
qed

lemma of_hex_snoc: "of_hex (s @ [c]) = 16 * of_hex s + hex_value c"
  by (simp add: of_hex_def)

lemma of_hex_to_hex: "of_hex (to_hex n) = n"
proof (induction n rule: to_hex.induct)
  case (1 n)
  show ?case
  proof (cases "n < 16")
    case True
    then show ?thesis
      by (subst to_hex.simps) (simp add: of_hex_def hex_value_digit)
  next
    case False
    with 1 show ?thesis
      by (subst to_hex.simps) (simp add: of_hex_snoc hex_value_digit)
  qed
qed

lemma to_hex_not_Nil: "to_hex n \<noteq> []"
  by (subst to_hex.simps) simp

lemma to_hex_hd: "to_hex n = c # cs \<Longrightarrow> c \<noteq> CHR ''-''"
  using to_hex_chars[of n] by auto

lemma parse_format: "parseSerialNumber (formatSerialNumber (Some n)) = n"
proof (cases "n < 0")
  case True
  then show ?thesis
    by (simp add: parseSerialNumber_def formatSerialNumber_def of_hex_to_hex)
next
  case False
  obtain c cs where cs: "to_hex (nat n) = c # cs"
    using to_hex_not_Nil[of "nat n"] by (cases "to_hex (nat n)") auto
  with False to_hex_hd[OF cs] of_hex_to_hex[of "nat n"] show ?thesis
    by (simp add: parseSerialNumber_def formatSerialNumber_def)
qed

lemma format_chars: "set (formatSerialNumber (Some n)) \<subseteq> set (CHR ''-'' # ''0123456789ABCDEF'')"
proof (cases "n < 0")
  case True
  then have "formatSerialNumber (Some n) = CHR ''-'' # to_hex (nat (- n))"
    by (simp add: formatSerialNumber_def)
  then show ?thesis
    using to_hex_chars[of "nat (- n)"] by (simp only: set_simps) (rule insert_mono)
next
  case False
  then have "formatSerialNumber (Some n) = to_hex (nat n)"
    by (simp add: formatSerialNumber_def)
  then show ?thesis
    using to_hex_chars[of "nat n"] by (simp only: set_simps) (rule subset_insertI2)
qed



section \<open>Invariants of the reachable states\<close>

text \<open>
  Calls that do not overlap keep the foreign key and the single-owner invariant: the
  check in \<open>AssignDeviceToUser\<close> is enough as long as no other call runs between the check
  and the insert.
\<close>

lemma single_active_iff: "single_active db = (\<forall>d. length (active_rows db d) \<le> 1)"
proof
  assume s: "single_active db"
  show "\<forall>d. length (active_rows db d) \<le> 1"
  proof
    fix d
    show "length (active_rows db d) \<le> 1"
    proof (cases "active_rows db d")
      case Nil
      then show ?thesis by simp
    next
      case (Cons a as)
      then have "a \<in> set (active_rows db d)" by simp
      then have "a \<in> set (assignments db)" and "DeviceID a = d"
        by (simp_all add: active_rows_def)
      with s show ?thesis by (auto simp: single_active_def list_all_iff)
    qed
  qed
next
  assume "\<forall>d. length (active_rows db d) \<le> 1"
  then show "single_active db" by (simp add: single_active_def list_all_iff)
qed

lemma active_rows_cong: "assignments db' = assignments db \<Longrightarrow> active_rows db' d = active_rows db d"
  by (simp add: active_rows_def)

lemma exec_unassign_DeviceIDs:
  "map DeviceID (assignments (fst (exec_unassign db d now))) = map DeviceID (assignments db)"
  by (simp add: exec_unassign_def comp_def if_distrib cong: if_cong)

lemma fk_ok_unassign: "fk_ok db \<Longrightarrow> fk_ok (snd (DeviceService_UnassignDevice db d t))"
  using arg_cong[OF exec_unassign_DeviceIDs[of db d t], of set]
  by (simp add: fk_ok_iff DeviceService_UnassignDevice_cases exec_unassign_devices)

lemma single_active_unassign:
  assumes "single_active db"
  shows "single_active (snd (DeviceService_UnassignDevice db d t))"
proof -
  have "length (active_rows (fst (exec_unassign db d t)) d') \<le> 1" for d'
    using assms active_rows_exec_unassign[of db d t] active_rows_exec_unassign_other[of d' d db t]
    by (cases "d' = d") (simp_all add: single_active_iff)
  with assms show ?thesis
    by (simp add: DeviceService_UnassignDevice_cases single_active_iff)
qed

lemma AuthenticateAndRegisterDevice_assignments:
  "assignments (snd (AuthenticateAndRegisterDevice db certInfo i t)) = assignments db"
  by (auto simp: AuthenticateAndRegisterDevice_def CreateDevice_def
      split: option.splits sum.splits)

lemma AuthenticateAndRegisterDevice_devices:
  "set (devices db) \<subseteq> set (devices (snd (AuthenticateAndRegisterDevice db certInfo i t)))"
  by (auto simp: AuthenticateAndRegisterDevice_def CreateDevice_def
      split: option.splits sum.splits)

lemma fk_ok_authenticate:
  "fk_ok db \<Longrightarrow> fk_ok (snd (AuthenticateAndRegisterDevice db certInfo i t))"
  using AuthenticateAndRegisterDevice_devices[of db certInfo i t]
  by (simp add: fk_ok_iff AuthenticateAndRegisterDevice_assignments) blast

lemma fk_ok_assign: "fk_ok db \<Longrightarrow> fk_ok (snd (AssignDeviceToUser db d u i t))"
  by (auto simp: fk_ok_iff AssignDeviceToUser_cases NewAssignment_def split: sum.splits)

lemma single_active_authenticate:
  "single_active db \<Longrightarrow> single_active (snd (AuthenticateAndRegisterDevice db certInfo i t))"
  by (simp add: single_active_iff
      active_rows_cong[OF AuthenticateAndRegisterDevice_assignments])

lemma single_active_assign:
  "single_active db \<Longrightarrow> single_active (snd (AssignDeviceToUser db d u i t))"
  by (auto simp: single_active_iff AssignDeviceToUser_cases active_rows_append NewAssignment_def
      split: sum.splits)

lemma reachable_invariants: "reachable db \<Longrightarrow> fk_ok db \<and> single_active db"
proof (induction rule: reachable.induct)
  case initial
  show ?case by (simp add: fk_ok_def single_active_def)
next
  case (authenticate db certInfo i t)
  then show ?case by (simp add: fk_ok_authenticate single_active_authenticate)
next
  case (assign db d u i t)
  then show ?case by (simp add: fk_ok_assign single_active_assign)
next
  case (unassign db d t)
  then show ?case by (simp add: fk_ok_unassign single_active_unassign)
qed

lemma example_db_reachable: "reachable example_db"
proof -
  have "snd (AuthenticateAndRegisterDevice \<lparr>devices = [], assignments = []\<rparr>
          (Some \<lparr>SerialNumber = ''ABC123'', IssuerCN = ''TestCA'', SubjectCN = ''TestDevice001'',
                 IsValid = True\<rparr>) 1 0) = example_db"
    by (simp add: AuthenticateAndRegisterDevice_def GetDeviceBySerialNumber_def CreateDevice_def
        example_db_def varchar_def timestamptz_def NewDevice_def)
  then show ?thesis
    using reachable.authenticate[OF reachable.initial,
        of "Some \<lparr>SerialNumber = ''ABC123'', IssuerCN = ''TestCA'', SubjectCN = ''TestDevice001'',
                 IsValid = True\<rparr>" 1 0]
    by simp
qed

text \<open>The unit tests of the models package: a new assignment is active, an unassigned one is not.\<close>

lemma TestNewAssignment: "IsActive (NewAssignment i now d u)"
  by (simp add: IsActive_def NewAssignment_def)

lemma TestAssignmentUnassign: "\<not> IsActive (Unassign t (NewAssignment i now d u))"
  by (simp add: IsActive_def NewAssignment_def Unassign_def)


section \<open>The claims\<close>

subsection \<open>C10: the repository's UnassignDevice deactivates every active row\<close>

text \<open>
  C10. \<open>AssignmentRepositoryImpl.UnassignDevice\<close> is one UPDATE over all rows of the device
  whose \<open>unassigned_at\<close> is NULL. It succeeds exactly when the device had at least one
  active row, and fails with "no active assignment found to unassign" exactly when it had
  none. Whatever it returns, the device has no active row afterwards, also when it had
  several before; every active row of the device gets the timestamp, every other row and
  the devices table stay as they were.
\<close>

theorem UnassignDevice_deactivates_all:
  assumes "AssignmentRepository_UnassignDevice db d now = (r, db')"
  shows "(r = Inr ()) = (active_rows db d \<noteq> []) \<and>
         (r = Inl Repo_no_active_assignment_found_to_unassign) = (active_rows db d = []) \<and>
         active_rows db' d = [] \<and>
         assignments db' =
           map (\<lambda>a. if DeviceID a = d \<and> UnassignedAt a = None
                     then a\<lparr>UnassignedAt := Some now\<rparr> else a) (assignments db) \<and>
         devices db' = devices db"
proof (cases "active_rows db d = []")
  case True
  then have "map (\<lambda>a. if DeviceID a = d \<and> UnassignedAt a = None
                     then a\<lparr>UnassignedAt := Some now\<rparr> else a) (assignments db) = assignments db"
    by (simp add: active_rows_def unassign_map_id)
  with True assms show ?thesis
    by (auto simp: AssignmentRepository_UnassignDevice_cases)
next
  case False
  with assms have "r = Inr ()" and "db' = fst (exec_unassign db d now)"
    by (simp_all add: AssignmentRepository_UnassignDevice_cases)
  with False active_rows_exec_unassign[of db d now] show ?thesis
    by (simp add: exec_unassign_def)
qed

text \<open>
  An instance: device 1 has two active rows, for alice and for bob, a state in which the
  single-owner invariant is already broken. One call deactivates both.
\<close>

theorem UnassignDevice_deactivates_all_witness:
  "AssignmentRepository_UnassignDevice
     (example_db\<lparr>assignments := [NewAssignment 10 100000 1 ''alice'', NewAssignment 11 100000 1 ''bob'']\<rparr>) 1 200000
   = (Inr (), example_db\<lparr>assignments := [Unassign 200000 (NewAssignment 10 100000 1 ''alice''),
                                            Unassign 200000 (NewAssignment 11 100000 1 ''bob'')]\<rparr>)
   \<and> length (active_rows
        (example_db\<lparr>assignments := [NewAssignment 10 100000 1 ''alice'', NewAssignment 11 100000 1 ''bob'']\<rparr>) 1) = 2
   \<and> active_rows
        (example_db\<lparr>assignments := [Unassign 200000 (NewAssignment 10 100000 1 ''alice''),
                                    Unassign 200000 (NewAssignment 11 100000 1 ''bob'')]\<rparr>) 1 = []"
proof -
  let ?db = "example_db\<lparr>assignments := [NewAssignment 10 100000 1 ''alice'', NewAssignment 11 100000 1 ''bob'']\<rparr>"
  let ?db' = "example_db\<lparr>assignments := [Unassign 200000 (NewAssignment 10 100000 1 ''alice''),
                                            Unassign 200000 (NewAssignment 11 100000 1 ''bob'')]\<rparr>"
  have h: "AssignmentRepository_UnassignDevice ?db 1 200000 = (Inr (), ?db')"
    by (simp add: AssignmentRepository_UnassignDevice_def exec_unassign_def active_rows_def
        NewAssignment_def Unassign_def example_db_def)
  have two: "length (active_rows ?db 1) = 2"
    by (simp add: active_rows_def NewAssignment_def)
  have "active_rows ?db' 1 = []"
    using UnassignDevice_deactivates_all[OF h] by blast
  with h two show ?thesis by simp
qed

subsection \<open>C5: the outcomes of assignDevice\<close>




subsection \<open>C6: unassign by a user who is not the owner\<close>

text \<open>
  C6. A device has an active assignment, and an authenticated user \<open>u\<close> who holds none of
  its active rows asks to unassign it. The handler answers with status 404 and the body
  "Device not found or not assigned to you" and leaves the database as it was, so the
  device is still assigned and its active rows are the same. The answer is the very
  response the same user gets for a device identifier \<open>d2\<close> that is not in the devices
  table of a database \<open>db2\<close> that respects the foreign key of \<open>assignments\<close> (every
  reachable database does): the caller cannot tell the two cases apart.
\<close>

theorem unassign_by_non_owner:
  assumes "u \<noteq> []" and "IsDeviceAssigned db d" and "\<not> IsDeviceAssignedToUser db d u"
    and "fk_ok db2" and "d2 \<notin> Device_ID ` set (devices db2)"
  shows "DeviceHandler_UnassignDevice db (Some d) (Some u) now =
           (http_Error ''Device not found or not assigned to you'' 404, db) \<and>
         DeviceHandler_UnassignDevice db2 (Some d2) (Some u) now2 =
           (http_Error ''Device not found or not assigned to you'' 404, db2) \<and>
         IsDeviceAssigned (snd (DeviceHandler_UnassignDevice db (Some d) (Some u) now)) d \<and>
         active_rows (snd (DeviceHandler_UnassignDevice db (Some d) (Some u) now)) d
           = active_rows db d"
proof -
  have "\<not> IsDeviceAssignedToUser db2 d2 u"
    using fk_ok_no_rows[OF assms(4,5)] by (simp add: IsDeviceAssignedToUser_iff)
  with assms(1-3) show ?thesis
    by (simp add: DeviceHandler_UnassignDevice_def GetUserIDFromContext_def CanUserAccessDevice_def)
qed

text \<open>
  An instance: alice owns device 1; bob's request for device 1 and bob's request for the
  unknown device 2 get the same response.
\<close>

theorem unassign_by_non_owner_witness:
  "DeviceHandler_UnassignDevice
     (example_db\<lparr>assignments := [NewAssignment 10 100000 1 ''alice'']\<rparr>) (Some 1) (Some ''bob'') 200000
     = (http_Error ''Device not found or not assigned to you'' 404,
        example_db\<lparr>assignments := [NewAssignment 10 100000 1 ''alice'']\<rparr>)
   \<and> DeviceHandler_UnassignDevice example_db (Some 2) (Some ''bob'') 200000
     = (http_Error ''Device not found or not assigned to you'' 404, example_db)
   \<and> IsDeviceAssignedToUser (example_db\<lparr>assignments := [NewAssignment 10 100000 1 ''alice'']\<rparr>) 1 ''alice''"
proof -
  let ?db = "example_db\<lparr>assignments := [NewAssignment 10 100000 1 ''alice'']\<rparr>"
  have u: "''bob'' \<noteq> []" by simp
  have a: "IsDeviceAssigned ?db 1"
    by (simp add: IsDeviceAssigned_def NewAssignment_def)
  have n: "\<not> IsDeviceAssignedToUser ?db 1 ''bob''"
    by (simp add: IsDeviceAssignedToUser_def NewAssignment_def)
  have o: "IsDeviceAssignedToUser ?db 1 ''alice''"
    by (simp add: IsDeviceAssignedToUser_def NewAssignment_def)
  have f: "fk_ok example_db" by (simp add: fk_ok_def example_db_def)
  have m: "2 \<notin> Device_ID ` set (devices example_db)"
    by (simp add: example_db_def NewDevice_def)
  from unassign_by_non_owner[OF u a n f m, of 200000 200000] o show ?thesis by blast
qed

subsection \<open>C7: assign, unassign, assign again\<close>




subsection \<open>C4: idempotent registration\<close>




subsection \<open>C3: when certificate extraction fails\<close>

text \<open>
  C3, as stated, does not hold of \<open>ExtractCertificateInfo\<close>: for a certificate without a
  serial number, or with an empty issuer common name, it returns a \<open>CertificateInfo\<close>
  marked valid, with the empty string in that field.
\<close>

theorem ExtractCertificateInfo_missing_serial:
  "IsValid (ExtractCertificateInfo (Some (example_cert\<lparr>cert_SerialNumber := None\<rparr>)))
   \<and> SerialNumber (ExtractCertificateInfo (Some (example_cert\<lparr>cert_SerialNumber := None\<rparr>))) = []
   \<and> IsValid (ExtractCertificateInfo (Some (example_cert\<lparr>cert_Issuer_CommonName := []\<rparr>)))
   \<and> IssuerCN (ExtractCertificateInfo (Some (example_cert\<lparr>cert_Issuer_CommonName := []\<rparr>))) = []"
  by (simp add: ExtractCertificateInfo_def formatSerialNumber_def extractCommonName_def)

text \<open>
  C3, amended. \<open>ExtractCertificateInfo\<close> marks its result invalid exactly when the
  certificate is absent. The three conditions are those of \<open>ValidateCertificate\<close>, which
  succeeds exactly when the certificate is present, has a serial number and a non-empty
  issuer common name. The certificate middleware runs the validation before the
  extraction, so for the leaf certificate of a connection it rejects the request exactly
  when the certificate is absent, its serial number is unset or its issuer common name is
  empty, and otherwise passes on the identity: the serial number rendered by
  \<open>formatSerialNumber\<close> and the issuer common name.
\<close>

theorem certificate_checks:
  "IsValid (ExtractCertificateInfo cert) = (cert \<noteq> None)
   \<and> (ValidateCertificate cert = None)
       = (\<exists>c n. cert = Some c \<and> cert_SerialNumber c = Some n \<and> cert_Issuer_CommonName c \<noteq> [])
   \<and> isl (CertificateAuthMiddleware_Authenticate (Some (cert # rest)))
       = (cert = None \<or>
          (\<exists>c. cert = Some c \<and> (cert_SerialNumber c = None \<or> cert_Issuer_CommonName c = [])))
   \<and> (CertificateAuthMiddleware_Authenticate (Some (cert # rest)) = Inr info)
       = (\<exists>c n. cert = Some c \<and> cert_SerialNumber c = Some n \<and> cert_Issuer_CommonName c \<noteq> [] \<and>
            info = \<lparr>SerialNumber = formatSerialNumber (Some n),
                    IssuerCN = cert_Issuer_CommonName c,
                    SubjectCN = cert_Subject_CommonName c,
                    IsValid = True\<rparr>)"
proof (cases cert)
  case None
  then show ?thesis
    by (simp add: ExtractCertificateInfo_def ValidateCertificate_def
        CertificateAuthMiddleware_Authenticate_def)
next
  case (Some c)
  show ?thesis
  proof (cases "cert_SerialNumber c")
    case None
    with Some show ?thesis
      by (simp add: ExtractCertificateInfo_def ValidateCertificate_def
          CertificateAuthMiddleware_Authenticate_def)
  next
    case (Some n)
    with \<open>cert = Some c\<close> show ?thesis
      by (auto simp: ExtractCertificateInfo_def ValidateCertificate_def
          CertificateAuthMiddleware_Authenticate_def extractCommonName_def)
  qed
qed

text \<open>
  An instance: the middleware on the example certificate.
\<close>

theorem certificate_checks_witness:
  "CertificateAuthMiddleware_Authenticate (Some [Some example_cert])
     = Inr \<lparr>SerialNumber = ''ABC123'', IssuerCN = ''TestCA'', SubjectCN = ''TestDevice001'',
            IsValid = True\<rparr>"
proof -
  have f: "formatSerialNumber (Some 11256099) = ''ABC123''"
    by (simp add: formatSerialNumber_def to_hex.simps hex_digit_def)
  have "\<exists>c n. Some example_cert = Some c \<and> cert_SerialNumber c = Some n \<and>
          cert_Issuer_CommonName c \<noteq> [] \<and>
          \<lparr>SerialNumber = ''ABC123'', IssuerCN = ''TestCA'', SubjectCN = ''TestDevice001'',
            IsValid = True\<rparr>
          = \<lparr>SerialNumber = formatSerialNumber (Some n),
             IssuerCN = cert_Issuer_CommonName c,
             SubjectCN = cert_Subject_CommonName c,
             IsValid = True\<rparr>"
    using f by (simp add: example_cert_def)
  with certificate_checks[of "Some example_cert" "[]"
      "\<lparr>SerialNumber = ''ABC123'', IssuerCN = ''TestCA'', SubjectCN = ''TestDevice001'',
            IsValid = True\<rparr>"]
  show ?thesis by blast
qed

subsection \<open>C9: canonical serial numbers\<close>

text \<open>
  C9. Two certificates whose serial numbers are the same integer are given the same
  \<open>SerialNumber\<close> string by \<open>ExtractCertificateInfo\<close>, whatever else differs between them. The
  string is the rendering of the integer in upper-case hexadecimal: it consists of the
  characters 0-9 and A-F (and a leading minus sign for a negative number), and reading it
  back as a hexadecimal numeral gives the integer, so different integers get different
  strings. Both certificates therefore look up the same device.
\<close>

theorem serial_number_canonical:
  assumes "cert_SerialNumber c1 = Some n" and "cert_SerialNumber c2 = Some n"
  shows "SerialNumber (ExtractCertificateInfo (Some c1)) = SerialNumber (ExtractCertificateInfo (Some c2))
       \<and> SerialNumber (ExtractCertificateInfo (Some c1)) = formatSerialNumber (Some n)
       \<and> set (formatSerialNumber (Some n)) \<subseteq> set ''-0123456789ABCDEF''
       \<and> parseSerialNumber (formatSerialNumber (Some n)) = n
       \<and> GetDeviceBySerialNumber db (SerialNumber (ExtractCertificateInfo (Some c1)))
           = GetDeviceBySerialNumber db (SerialNumber (ExtractCertificateInfo (Some c2)))"
  using assms format_chars[of n] parse_format[of n]
  by (simp add: ExtractCertificateInfo_def)

text \<open>
  An instance: the example certificate and its re-issue by another CA both render as
  ABC123.
\<close>

theorem serial_number_canonical_witness:
  "SerialNumber (ExtractCertificateInfo (Some example_cert)) = ''ABC123''
   \<and> SerialNumber (ExtractCertificateInfo (Some (example_cert\<lparr>cert_Issuer_CommonName := ''OtherCA''\<rparr>)))
       = ''ABC123''
   \<and> parseSerialNumber ''ABC123'' = 11256099"
proof -
  have f: "formatSerialNumber (Some 11256099) = ''ABC123''"
    by (simp add: formatSerialNumber_def to_hex.simps hex_digit_def)
  have a: "cert_SerialNumber example_cert = Some 11256099"
    by (simp add: example_cert_def)
  have b: "cert_SerialNumber (example_cert\<lparr>cert_Issuer_CommonName := ''OtherCA''\<rparr>) = Some 11256099"
    by (simp add: example_cert_def)
  let ?s1 = "SerialNumber (ExtractCertificateInfo (Some example_cert))"
  let ?s2 = "SerialNumber (ExtractCertificateInfo
               (Some (example_cert\<lparr>cert_Issuer_CommonName := ''OtherCA''\<rparr>)))"
  have e1: "?s1 = ?s2" and e2: "?s1 = formatSerialNumber (Some 11256099)"
    and e3: "parseSerialNumber (formatSerialNumber (Some 11256099)) = 11256099"
    using serial_number_canonical[OF a b, of example_db] by blast+
  have s1: "?s1 = ''ABC123''" using e2 f by simp
  have s2: "?s2 = ''ABC123''" using e1 s1 by simp
  have p: "parseSerialNumber ''ABC123'' = 11256099" using e3 f by simp
  show ?thesis using s1 s2 p by (intro conjI)
qed

subsection \<open>C2: token verification\<close>

text \<open>
  C2, as stated, does not hold: \<open>GenerateToken\<close> signs with HS256, but the key function of
  \<open>ValidateToken\<close> accepts every method of the HMAC family. A token whose header names
  HS512 and whose signature is the HMAC-SHA512 under the configured secret is accepted.
\<close>

theorem ValidateToken_accepts_HS512:
  "ValidateToken example_jwt 1000000000000
     (compact (SigningMethodHMAC SHA512)
        \<lparr>Claims_UserID = ''alice'', Issuer = ''device-assignment-api'', Subject = ''alice'',
         IssuedAt = Some 500000000000, ExpiresAt = Some 2000000000000, NotBefore = Some 500000000000\<rparr>
        (Sign (SigningMethodHMAC SHA512) ''secret''
           \<lparr>Claims_UserID = ''alice'', Issuer = ''device-assignment-api'', Subject = ''alice'',
            IssuedAt = Some 500000000000, ExpiresAt = Some 2000000000000, NotBefore = Some 500000000000\<rparr>))
   = Inr \<lparr>Claims_UserID = ''alice'', Issuer = ''device-assignment-api'', Subject = ''alice'',
          IssuedAt = Some 500000000000, ExpiresAt = Some 2000000000000, NotBefore = Some 500000000000\<rparr>
   \<and> SigningMethodHMAC SHA512 \<noteq> SigningMethodHS256"
  by (simp add: ValidateToken_compact Validate_def example_jwt_def SigningMethodHS256_def)

text \<open>
  C2, amended. \<open>ValidateToken\<close> returns claims \<open>c\<close> exactly when the token string parses,
  its signing method is of the HMAC family (HS256, HS384 or HS512), its signature is the
  one that this method computes with the configured secret over its header and claims
  \<open>c\<close>, its \<open>exp\<close> (if present) is after the current time, its \<open>nbf\<close> (if present) is
  not after the current time, and the \<open>user_id\<close> claim is not empty. In every other case,
  a malformed string, another signing method, a wrong signature, an expired or not yet
  valid token, an empty or absent \<open>user_id\<close>, it returns an error.
\<close>

theorem ValidateToken_accepts_iff:
  "(ValidateToken j now ts = Inr c) =
     (\<exists>h. ts = compact (SigningMethodHMAC h) c (Sign (SigningMethodHMAC h) (secretKey j) c) \<and>
        (\<forall>e. ExpiresAt c = Some e \<longrightarrow> now < e) \<and>
        (\<forall>n. NotBefore c = Some n \<longrightarrow> n \<le> now) \<and>
        Claims_UserID c \<noteq> [])
   \<and> isl (ValidateToken j now ts) = (\<forall>c'. ValidateToken j now ts \<noteq> Inr c')"
proof (cases ts)
  case malformed
  then show ?thesis by (simp add: ValidateToken_def ParseWithClaims_def)
next
  case (compact m cl sig)
  show ?thesis
    unfolding compact ValidateToken_compact Validate_Nil[symmetric]
    by (cases m) (auto simp: Validate_Nil)
qed

text \<open>
  An instance: a well-signed HS256 token inside its validity period is accepted, and the
  same claims under an RS256 header are rejected.
\<close>

theorem ValidateToken_accepts_iff_witness:
  "ValidateToken example_jwt 1000000000000
     (compact SigningMethodHS256
        \<lparr>Claims_UserID = ''alice'', Issuer = ''device-assignment-api'', Subject = ''alice'',
         IssuedAt = Some 500000000000, ExpiresAt = Some 2000000000000, NotBefore = Some 500000000000\<rparr>
        (Sign SigningMethodHS256 ''secret''
           \<lparr>Claims_UserID = ''alice'', Issuer = ''device-assignment-api'', Subject = ''alice'',
            IssuedAt = Some 500000000000, ExpiresAt = Some 2000000000000, NotBefore = Some 500000000000\<rparr>))
   = Inr \<lparr>Claims_UserID = ''alice'', Issuer = ''device-assignment-api'', Subject = ''alice'',
          IssuedAt = Some 500000000000, ExpiresAt = Some 2000000000000, NotBefore = Some 500000000000\<rparr>
   \<and> isl (ValidateToken example_jwt 1000000000000
       (compact (SigningMethodRSA SHA256)
          \<lparr>Claims_UserID = ''alice'', Issuer = ''device-assignment-api'', Subject = ''alice'',
           IssuedAt = Some 500000000000, ExpiresAt = Some 2000000000000, NotBefore = Some 500000000000\<rparr>
          (Sign (SigningMethodRSA SHA256) ''secret''
             \<lparr>Claims_UserID = ''alice'', Issuer = ''device-assignment-api'', Subject = ''alice'',
              IssuedAt = Some 500000000000, ExpiresAt = Some 2000000000000, NotBefore = Some 500000000000\<rparr>)))"
proof -
  let ?cl = "\<lparr>Claims_UserID = ''alice'', Issuer = ''device-assignment-api'', Subject = ''alice'',
         IssuedAt = Some 500000000000, ExpiresAt = Some 2000000000000, NotBefore = Some (500000000000::int)\<rparr>"
  let ?good = "compact SigningMethodHS256 ?cl (Sign SigningMethodHS256 ''secret'' ?cl)"
  let ?bad = "compact (SigningMethodRSA SHA256) ?cl (Sign (SigningMethodRSA SHA256) ''secret'' ?cl)"
  have "\<exists>h. ?good = compact (SigningMethodHMAC h) ?cl
            (Sign (SigningMethodHMAC h) (secretKey example_jwt) ?cl) \<and>
          (\<forall>e. ExpiresAt ?cl = Some e \<longrightarrow> 1000000000000 < e) \<and>
          (\<forall>n. NotBefore ?cl = Some n \<longrightarrow> n \<le> 1000000000000) \<and>
          Claims_UserID ?cl \<noteq> []"
    by (simp add: SigningMethodHS256_def example_jwt_def)
  then have good: "ValidateToken example_jwt 1000000000000 ?good = Inr ?cl"
    using ValidateToken_accepts_iff[of example_jwt 1000000000000 ?good ?cl] by blast
  have "\<forall>c'. \<not> (\<exists>h. ?bad = compact (SigningMethodHMAC h) c'
            (Sign (SigningMethodHMAC h) (secretKey example_jwt) c') \<and>
          (\<forall>e. ExpiresAt c' = Some e \<longrightarrow> 1000000000000 < e) \<and>
          (\<forall>n. NotBefore c' = Some n \<longrightarrow> n \<le> 1000000000000) \<and>
          Claims_UserID c' \<noteq> [])"
    by simp
  then have "\<forall>c'. ValidateToken example_jwt 1000000000000 ?bad \<noteq> Inr c'"
    using ValidateToken_accepts_iff[of example_jwt 1000000000000 ?bad] by blast
  then have bad: "isl (ValidateToken example_jwt 1000000000000 ?bad)"
    using ValidateToken_accepts_iff[of example_jwt 1000000000000 ?bad ?cl] by blast
  from good bad show ?thesis by (intro conjI)
qed

subsection \<open>C8: the token lifecycle\<close>

text \<open>
  C8, as stated, does not hold for every issued token. The library keeps whole seconds:
  a token issued 1.1 seconds after the epoch with a lifetime of half a second carries
  \<open>iat = 1 s\<close>, which is not the time of issue, and \<open>exp = 1 s\<close>, since 1.6 seconds are
  cut to 1 second; it has expired when it is issued, and half-way through its lifetime.
  And \<open>GenerateToken\<close> issues a token for the empty user id too, which \<open>ValidateToken\<close>
  rejects for its empty \<open>user_id\<close> at every time, also half-way through its lifetime of
  24 hours.
\<close>

theorem token_lifecycle_short_lifetime:
  "GenerateToken (example_jwt\<lparr>tokenDuration := 500000000\<rparr>) 1100000000 ''alice''
     = Inr (compact SigningMethodHS256
              \<lparr>Claims_UserID = ''alice'', Issuer = ''device-assignment-api'', Subject = ''alice'',
               IssuedAt = Some 1000000000, ExpiresAt = Some 1000000000,
               NotBefore = Some 1000000000\<rparr>
              (Sign SigningMethodHS256 ''secret''
                 \<lparr>Claims_UserID = ''alice'', Issuer = ''device-assignment-api'', Subject = ''alice'',
                  IssuedAt = Some 1000000000, ExpiresAt = Some 1000000000,
                  NotBefore = Some 1000000000\<rparr>))
   \<and> ValidateToken (example_jwt\<lparr>tokenDuration := 500000000\<rparr>) (1000000000 + 500000000 div 2)
       (compact SigningMethodHS256
              \<lparr>Claims_UserID = ''alice'', Issuer = ''device-assignment-api'', Subject = ''alice'',
               IssuedAt = Some 1000000000, ExpiresAt = Some 1000000000,
               NotBefore = Some 1000000000\<rparr>
              (Sign SigningMethodHS256 ''secret''
                 \<lparr>Claims_UserID = ''alice'', Issuer = ''device-assignment-api'', Subject = ''alice'',
                  IssuedAt = Some 1000000000, ExpiresAt = Some 1000000000,
                  NotBefore = Some 1000000000\<rparr>))
     = Inl (failed_to_parse_token (ErrTokenInvalidClaims [ErrTokenExpired]))
   \<and> ValidateToken (example_jwt\<lparr>tokenDuration := 500000000\<rparr>) 1100000000
       (compact SigningMethodHS256
              \<lparr>Claims_UserID = ''alice'', Issuer = ''device-assignment-api'', Subject = ''alice'',
               IssuedAt = Some 1000000000, ExpiresAt = Some 1000000000,
               NotBefore = Some 1000000000\<rparr>
              (Sign SigningMethodHS256 ''secret''
                 \<lparr>Claims_UserID = ''alice'', Issuer = ''device-assignment-api'', Subject = ''alice'',
                  IssuedAt = Some 1000000000, ExpiresAt = Some 1000000000,
                  NotBefore = Some 1000000000\<rparr>))
     = Inl (failed_to_parse_token (ErrTokenInvalidClaims [ErrTokenExpired]))
   \<and> GenerateToken example_jwt 1000000000000 []
     = Inr (compact SigningMethodHS256
              \<lparr>Claims_UserID = [], Issuer = ''device-assignment-api'', Subject = [],
               IssuedAt = Some 1000000000000, ExpiresAt = Some 87400000000000,
               NotBefore = Some 1000000000000\<rparr>
              (Sign SigningMethodHS256 ''secret''
                 \<lparr>Claims_UserID = [], Issuer = ''device-assignment-api'', Subject = [],
                  IssuedAt = Some 1000000000000, ExpiresAt = Some 87400000000000,
                  NotBefore = Some 1000000000000\<rparr>))
   \<and> tokenDuration example_jwt = 86400000000000
   \<and> ValidateToken example_jwt (1000000000000 + 86400000000000 div 2)
       (compact SigningMethodHS256
              \<lparr>Claims_UserID = [], Issuer = ''device-assignment-api'', Subject = [],
               IssuedAt = Some 1000000000000, ExpiresAt = Some 87400000000000,
               NotBefore = Some 1000000000000\<rparr>
              (Sign SigningMethodHS256 ''secret''
                 \<lparr>Claims_UserID = [], Issuer = ''device-assignment-api'', Subject = [],
                  IssuedAt = Some 1000000000000, ExpiresAt = Some 87400000000000,
                  NotBefore = Some 1000000000000\<rparr>))
     = Inl user_ID_is_missing_from_token"
  by (simp add: GenerateToken_def SignedString_def SigningMethodHS256_def example_jwt_def
      ValidateToken_compact Validate_def NewNumericDate_def)

text \<open>
  C8, amended. \<open>GenerateToken j now u\<close> always returns a token, signed with HS256 under the
  configured secret, whose claims carry \<open>user_id = u\<close>, the configured issuer,
  \<open>iat = nbf =\<close> the time of issue cut to the whole second, and \<open>exp =\<close> the time of issue
  plus the lifetime, cut to the whole second; so \<open>iat = nbf = now\<close> and
  \<open>exp = now + lifetime\<close> when the time of issue and the lifetime are whole seconds.
  When \<open>u\<close> is not empty and the lifetime \<open>T\<close> is at least one second, the token verifies
  at \<open>iat + T div 2\<close> and \<open>ValidateToken\<close> returns its claims. Verification fails at
  \<open>iat + T +\<close> one second, for a lifetime that is not negative with the library's
  \<open>ErrTokenExpired\<close>; when the lifetime is a whole number of seconds it fails already at
  \<open>iat + T +\<close> one nanosecond.
\<close>

theorem token_lifecycle:
  "\<exists>cl. GenerateToken j now u
           = Inr (compact SigningMethodHS256 cl (Sign SigningMethodHS256 (secretKey j) cl))
       \<and> Claims_UserID cl = u \<and> Issuer cl = issuer j
       \<and> IssuedAt cl = Some (NewNumericDate now) \<and> NotBefore cl = Some (NewNumericDate now)
       \<and> ExpiresAt cl = Some (NewNumericDate (now + tokenDuration j))
       \<and> (now mod 1000000000 = 0 \<and> tokenDuration j mod 1000000000 = 0 \<longrightarrow>
            IssuedAt cl = Some now \<and> NotBefore cl = Some now \<and>
            ExpiresAt cl = Some (now + tokenDuration j))
       \<and> (u \<noteq> [] \<and> 1000000000 \<le> tokenDuration j \<longrightarrow>
            ValidateToken j (NewNumericDate now + tokenDuration j div 2)
              (compact SigningMethodHS256 cl (Sign SigningMethodHS256 (secretKey j) cl)) = Inr cl)
       \<and> isl (ValidateToken j (NewNumericDate now + tokenDuration j + 1000000000)
              (compact SigningMethodHS256 cl (Sign SigningMethodHS256 (secretKey j) cl)))
       \<and> (0 \<le> tokenDuration j \<longrightarrow>
            ValidateToken j (NewNumericDate now + tokenDuration j + 1000000000)
              (compact SigningMethodHS256 cl (Sign SigningMethodHS256 (secretKey j) cl))
            = Inl (failed_to_parse_token (ErrTokenInvalidClaims [ErrTokenExpired])))
       \<and> (tokenDuration j mod 1000000000 = 0 \<longrightarrow>
            isl (ValidateToken j (NewNumericDate now + tokenDuration j + 1)
              (compact SigningMethodHS256 cl (Sign SigningMethodHS256 (secretKey j) cl))))"
proof -
  let ?iat = "NewNumericDate now"
  let ?exp = "NewNumericDate (now + tokenDuration j)"
  let ?cl = "\<lparr>Claims_UserID = u, Issuer = issuer j, Subject = u, IssuedAt = Some ?iat,
              ExpiresAt = Some ?exp, NotBefore = Some ?iat\<rparr>"
  let ?ts = "compact SigningMethodHS256 ?cl (Sign SigningMethodHS256 (secretKey j) ?cl)"
  have g: "GenerateToken j now u = Inr ?ts"
    by (simp add: GenerateToken_def SignedString_def SigningMethodHS256_def)
  have w: "IssuedAt ?cl = Some now \<and> NotBefore ?cl = Some now \<and>
           ExpiresAt ?cl = Some (now + tokenDuration j)"
    if "now mod 1000000000 = 0 \<and> tokenDuration j mod 1000000000 = 0"
    using that by (simp add: NewNumericDate_add_whole NewNumericDate_whole)
  have v1: "Validate (?iat + tokenDuration j div 2) ?cl = []" if "1000000000 \<le> tokenDuration j"
  proof -
    from that have "0 \<le> tokenDuration j div 2" by simp
    moreover have "?iat + tokenDuration j div 2 < ?exp"
      using that by (rule half_before_expiry)
    ultimately show ?thesis by (simp add: Validate_def)
  qed
  have ok: "ValidateToken j (?iat + tokenDuration j div 2) ?ts = Inr ?cl"
    if "u \<noteq> [] \<and> 1000000000 \<le> tokenDuration j"
    using that v1 by (simp add: ValidateToken_compact SigningMethodHS256_def)
  have le: "?exp \<le> ?iat + tokenDuration j + 1000000000"
    using NewNumericDate_le[of "now + tokenDuration j"] NewNumericDate_gt[of now] by linarith
  have v2: "Validate (?iat + tokenDuration j + 1000000000) ?cl \<noteq> []"
    using le by (simp add: Validate_def)
  have late: "isl (ValidateToken j (?iat + tokenDuration j + 1000000000) ?ts)"
    using v2 by (simp add: ValidateToken_compact SigningMethodHS256_def)
  have v3: "Validate (?iat + tokenDuration j + 1000000000) ?cl = [ErrTokenExpired]"
    if "0 \<le> tokenDuration j"
    using that le by (simp add: Validate_def)
  have late': "ValidateToken j (?iat + tokenDuration j + 1000000000) ?ts
                = Inl (failed_to_parse_token (ErrTokenInvalidClaims [ErrTokenExpired]))"
    if "0 \<le> tokenDuration j"
    using v3[OF that] by (simp add: ValidateToken_compact SigningMethodHS256_def)
  have v4: "Validate (?iat + tokenDuration j + 1) ?cl \<noteq> []"
    if "tokenDuration j mod 1000000000 = 0"
    using that by (simp add: Validate_def NewNumericDate_add_whole)
  have soon: "isl (ValidateToken j (?iat + tokenDuration j + 1) ?ts)"
    if "tokenDuration j mod 1000000000 = 0"
    using v4[OF that] by (simp add: ValidateToken_compact SigningMethodHS256_def)
  have "GenerateToken j now u = Inr ?ts
       \<and> Claims_UserID ?cl = u \<and> Issuer ?cl = issuer j
       \<and> IssuedAt ?cl = Some ?iat \<and> NotBefore ?cl = Some ?iat
       \<and> ExpiresAt ?cl = Some ?exp
       \<and> (now mod 1000000000 = 0 \<and> tokenDuration j mod 1000000000 = 0 \<longrightarrow>
            IssuedAt ?cl = Some now \<and> NotBefore ?cl = Some now \<and>
            ExpiresAt ?cl = Some (now + tokenDuration j))
       \<and> (u \<noteq> [] \<and> 1000000000 \<le> tokenDuration j \<longrightarrow>
            ValidateToken j (?iat + tokenDuration j div 2) ?ts = Inr ?cl)
       \<and> isl (ValidateToken j (?iat + tokenDuration j + 1000000000) ?ts)
       \<and> (0 \<le> tokenDuration j \<longrightarrow>
            ValidateToken j (?iat + tokenDuration j + 1000000000) ?ts
            = Inl (failed_to_parse_token (ErrTokenInvalidClaims [ErrTokenExpired])))
       \<and> (tokenDuration j mod 1000000000 = 0 \<longrightarrow>
            isl (ValidateToken j (?iat + tokenDuration j + 1) ?ts))"
    using g w ok late late' soon by (intro conjI impI) simp_all
  then show ?thesis by (rule exI[of _ ?cl])
qed

text \<open>
  An instance: a token for alice issued 1000.5 seconds after the epoch with the lifetime
  of 24 hours carries \<open>iat = 1000 s\<close> and \<open>exp = 87400 s\<close>; it verifies at 44200 s and
  has expired at 87401 s.
\<close>

theorem token_lifecycle_witness:
  "GenerateToken example_jwt 1000500000000 ''alice''
     = Inr (compact SigningMethodHS256
              \<lparr>Claims_UserID = ''alice'', Issuer = ''device-assignment-api'', Subject = ''alice'',
               IssuedAt = Some 1000000000000, ExpiresAt = Some 87400000000000,
               NotBefore = Some 1000000000000\<rparr>
              (Sign SigningMethodHS256 ''secret''
                 \<lparr>Claims_UserID = ''alice'', Issuer = ''device-assignment-api'', Subject = ''alice'',
                  IssuedAt = Some 1000000000000, ExpiresAt = Some 87400000000000,
                  NotBefore = Some 1000000000000\<rparr>))
   \<and> ValidateToken example_jwt 44200000000000
       (compact SigningMethodHS256
              \<lparr>Claims_UserID = ''alice'', Issuer = ''device-assignment-api'', Subject = ''alice'',
               IssuedAt = Some 1000000000000, ExpiresAt = Some 87400000000000,
               NotBefore = Some 1000000000000\<rparr>
              (Sign SigningMethodHS256 ''secret''
                 \<lparr>Claims_UserID = ''alice'', Issuer = ''device-assignment-api'', Subject = ''alice'',
                  IssuedAt = Some 1000000000000, ExpiresAt = Some 87400000000000,
                  NotBefore = Some 1000000000000\<rparr>))
     = Inr \<lparr>Claims_UserID = ''alice'', Issuer = ''device-assignment-api'', Subject = ''alice'',
            IssuedAt = Some 1000000000000, ExpiresAt = Some 87400000000000,
            NotBefore = Some 1000000000000\<rparr>
   \<and> ValidateToken example_jwt 87401000000000
       (compact SigningMethodHS256
              \<lparr>Claims_UserID = ''alice'', Issuer = ''device-assignment-api'', Subject = ''alice'',
               IssuedAt = Some 1000000000000, ExpiresAt = Some 87400000000000,
               NotBefore = Some 1000000000000\<rparr>
              (Sign SigningMethodHS256 ''secret''
                 \<lparr>Claims_UserID = ''alice'', Issuer = ''device-assignment-api'', Subject = ''alice'',
                  IssuedAt = Some 1000000000000, ExpiresAt = Some 87400000000000,
                  NotBefore = Some 1000000000000\<rparr>))
     = Inl (failed_to_parse_token (ErrTokenInvalidClaims [ErrTokenExpired]))"
proof -
  let ?cl = "\<lparr>Claims_UserID = ''alice'', Issuer = ''device-assignment-api'', Subject = ''alice'',
               IssuedAt = Some 1000000000000, ExpiresAt = Some 87400000000000,
               NotBefore = Some (1000000000000::int)\<rparr>"
  let ?ts = "compact SigningMethodHS256 ?cl (Sign SigningMethodHS256 ''secret'' ?cl)"
  have g: "GenerateToken example_jwt 1000500000000 ''alice'' = Inr ?ts"
    by (simp add: GenerateToken_def SignedString_def SigningMethodHS256_def example_jwt_def
        NewNumericDate_def)
  have k: "secretKey example_jwt = ''secret''"
    and d: "tokenDuration example_jwt = 86400000000000"
    by (simp_all add: example_jwt_def)
  have n: "NewNumericDate 1000500000000 = 1000000000000"
    by (simp add: NewNumericDate_def)
  obtain cl where
    c1: "GenerateToken example_jwt 1000500000000 ''alice''
          = Inr (compact SigningMethodHS256 cl (Sign SigningMethodHS256 (secretKey example_jwt) cl))"
    and c2: "''alice'' \<noteq> [] \<and> 1000000000 \<le> tokenDuration example_jwt \<longrightarrow>
            ValidateToken example_jwt (NewNumericDate 1000500000000 + tokenDuration example_jwt div 2)
              (compact SigningMethodHS256 cl (Sign SigningMethodHS256 (secretKey example_jwt) cl)) = Inr cl"
    and c3: "0 \<le> tokenDuration example_jwt \<longrightarrow>
            ValidateToken example_jwt (NewNumericDate 1000500000000 + tokenDuration example_jwt + 1000000000)
              (compact SigningMethodHS256 cl (Sign SigningMethodHS256 (secretKey example_jwt) cl))
            = Inl (failed_to_parse_token (ErrTokenInvalidClaims [ErrTokenExpired]))"
    using token_lifecycle[of example_jwt 1000500000000 "''alice''"] by blast
  from c1 g have cl: "cl = ?cl" by simp
  from c2 have a: "ValidateToken example_jwt 44200000000000 ?ts = Inr ?cl"
    unfolding cl k d n by simp
  from c3 have b: "ValidateToken example_jwt 87401000000000 ?ts
      = Inl (failed_to_parse_token (ErrTokenInvalidClaims [ErrTokenExpired]))"
    unfolding cl k d n by simp
  from g a b show ?thesis by (intro conjI)
qed

subsection \<open>C1: two racing assignments\<close>

text \<open>
  C1. The code does not keep the single-owner invariant when two calls of
  \<open>AssignDeviceToUser\<close> for the same device interleave. On the example database, where
  device 1 is registered and unowned, alice's and bob's calls take turns statement by
  statement: both find the device, both find it unassigned, both insert. Both calls
  return without error, and device 1 has two active rows, so the single-owner invariant
  is broken. No constraint of the schema rejects the second insert. Run one after the other, the same two calls end as the
  claim says: the first succeeds and the second fails with "device is already assigned
  to another user".
\<close>

theorem race_two_active:
  "map pc (snd (interleave [0, 1, 0, 1, 0, 1] example_db
       [start_assign 1 ''alice'' 10 100000, start_assign 1 ''bob'' 11 100000]))
     = [returned (Inr ()), returned (Inr ())]
   \<and> active_rows (fst (interleave [0, 1, 0, 1, 0, 1] example_db
       [start_assign 1 ''alice'' 10 100000, start_assign 1 ''bob'' 11 100000])) 1
     = [NewAssignment 10 100000 1 ''alice'', NewAssignment 11 100000 1 ''bob'']
   \<and> \<not> single_active (fst (interleave [0, 1, 0, 1, 0, 1] example_db
       [start_assign 1 ''alice'' 10 100000, start_assign 1 ''bob'' 11 100000]))
   \<and> map pc (snd (interleave [0, 0, 0, 1, 1, 1] example_db
       [start_assign 1 ''alice'' 10 100000, start_assign 1 ''bob'' 11 100000]))
     = [returned (Inr ()), returned (Inl Svc_device_is_already_assigned)]"
  by (simp add: assign_step_def start_assign_def GetDeviceByID_def IsDeviceAssigned_def
      CreateAssignment_def NewDevice_def NewAssignment_def active_rows_def example_db_def
      single_active_def varchar_def timestamptz_def)


end
